theory Spec2Isabelle
  imports Complex_Main "HOL-Library.Log_Nat"
begin

section \<open>Errors\<close>

text \<open>
  Both modules signal failure by raising. Every raise of the modelled functions is a
  value of this type, and a function that can raise returns \<open>error + 'a\<close> with
  \<open>Inl\<close> for the exception.

  \<^item> \<open>UnrecognizedSeriesError\<close> is
    \<^verbatim>\<open>raise Exception('Unrecognized preferred number series token.')\<close>
    of \<^verbatim>\<open>PrNmRLkUp\<close>;
  \<^item> \<open>KeyError\<close> is a lookup of a column name that the saturation table does not have;
  \<^item> \<open>ValueError\<close> is a tuple unpacking whose right-hand side has the wrong length;
  \<^item> \<open>ZeroDivisionError\<close> is a division of Python numbers by zero;
  \<^item> \<open>InterpolationError\<close> stands for whatever the interpolation routine raises.
\<close>

datatype error =
    UnrecognizedSeriesError
  | KeyError
  | ValueError
  | ZeroDivisionError
  | InterpolationError

section \<open>Preferred number series: \<^verbatim>\<open>m2py/prefnumpy.py\<close>\<close>

subsection \<open>The series look-up \<^verbatim>\<open>PrNmRLkUp\<close>\<close>

text \<open>
  \<^verbatim>\<open>array\<close> of numpy, applied to a Python list of integers: the same numbers in the
  same order.
\<close>

definition array :: "int list \<Rightarrow> int list" where
  "array xs = xs"

text \<open>
  The token is a Python 2 byte string, a \<open>string\<close> here. The double quote of the
  tokens \<^verbatim>\<open>'R"5'\<close>, \<^verbatim>\<open>'R"10'\<close> and \<^verbatim>\<open>'R"20'\<close> is written \<open>CHR 0x22\<close>.

  The source compares the token with \<^verbatim>\<open>'R''5'\<close>, \<^verbatim>\<open>'R''10'\<close>, \<^verbatim>\<open>'R''20'\<close> and
  \<^verbatim>\<open>'R''40'\<close>. In Python two adjacent string literals are concatenated, so these are the
  strings \<^verbatim>\<open>'R5'\<close>, \<^verbatim>\<open>'R10'\<close>, \<^verbatim>\<open>'R20'\<close> and \<^verbatim>\<open>'R40'\<close>; the model writes them as the
  concatenation the source has, in the order of the source's \<^verbatim>\<open>if\<close>/\<^verbatim>\<open>elif\<close> chain.

  The function returns the Python list \<^verbatim>\<open>[PfT, PfO, DfA]\<close>, a triple here: the series
  values, the integer \<^verbatim>\<open>PfO = 2\<close> and the list \<^verbatim>\<open>DfA = [0]\<close>.
\<close>

definition PrNmRLkUp :: "string \<Rightarrow> error + (int list \<times> int \<times> int list)" where
  "PrNmRLkUp PfT =
    (let PfO = 2; DfA = [0] in
     case
      (if PfT = ''R5'' then
         Inr [100, 158, 251, 398, 631]
       else if PfT = ''R10'' then
         Inr [100, 125, 160, 200, 250, 315, 400, 500, 630, 800]
       else if PfT = ''R20'' then
         Inr [100, 112, 125, 140, 160, 180, 200, 224, 250, 280,
              315, 355, 400, 450, 500, 560, 630, 710, 800, 900]
       else if PfT = ''R40'' then
         Inr [100, 106, 112, 118, 125, 132, 140, 150, 160, 170,
              180, 190, 200, 212, 224, 236, 250, 265, 280, 300,
              315, 335, 355, 375, 400, 425, 450, 475, 500, 530,
              560, 600, 630, 670, 710, 750, 800, 850, 900, 950]
       else if PfT = ''R80'' then
         Inr [100, 103, 106, 109, 112, 115, 118, 122, 125, 128,
              132, 136, 140, 145, 150, 155, 160, 165, 170, 175,
              180, 185, 190, 195, 200, 206, 212, 218, 224, 230,
              236, 243, 250, 258, 265, 272, 280, 290, 300, 307,
              315, 325, 335, 345, 355, 365, 375, 387, 400, 412,
              425, 437, 450, 462, 475, 487, 500, 515, 530, 545,
              560, 580, 600, 615, 630, 650, 670, 690, 710, 730,
              750, 775, 800, 825, 850, 875, 900, 925, 950, 975]
       else if PfT = ''R'' @ ''5'' then
         Inr [100, 160, 250, 400, 630]
       else if PfT = ''R'' @ ''10'' then
         Inr [100, 125, 160, 200, 250, 320, 400, 500, 630, 800]
       else if PfT = ''R'' @ ''20'' then
         Inr [100, 110, 125, 140, 160, 180, 200, 220, 250, 280,
              320, 360, 400, 450, 500, 560, 630, 710, 800, 900]
       else if PfT = ''R'' @ ''40'' then
         Inr [100, 105, 110, 120, 125, 130, 140, 150, 160, 170,
              180, 190, 200, 210, 220, 240, 250, 260, 280, 300,
              320, 340, 360, 380, 400, 420, 450, 480, 500, 530,
              560, 600, 630, 670, 710, 750, 800, 850, 900, 950]
       else if PfT = [CHR ''R'', CHR 0x22, CHR ''5''] then
         Inr [100, 150, 250, 400, 600]
       else if PfT = [CHR ''R'', CHR 0x22, CHR ''1'', CHR ''0''] then
         Inr [100, 120, 150, 200, 250, 300, 400, 500, 600, 800]
       else if PfT = [CHR ''R'', CHR 0x22, CHR ''2'', CHR ''0''] then
         Inr [100, 110, 120, 140, 150, 180, 200, 220, 250, 280,
              300, 350, 400, 450, 500, 550, 600, 700, 800, 900]
       else
         Inl UnrecognizedSeriesError)
     of
       Inl e \<Rightarrow> Inl e
     | Inr vs \<Rightarrow> Inr (array vs, PfO, DfA))"

text \<open>
  The inbuilt tokens that the header of \<^verbatim>\<open>prefnumpy.py\<close> documents (section
  ``Inbuilt PNS Tokens''): 1-2-5, the six electronic series, and the Renard series in
  their basic, rounded (\<^verbatim>\<open>R'5\<close>, with an apostrophe, \<open>CHR 0x27\<close>) and twice rounded
  (\<^verbatim>\<open>R"5\<close>) variants.
\<close>

definition documented_tokens :: "string list" where
  "documented_tokens =
    [''125'',
     ''E6'', ''E12'', ''E24'', ''E48'', ''E96'', ''E192'',
     ''R5'', ''R10'', ''R20'', ''R40'', ''R80'',
     [CHR ''R'', CHR 0x27, CHR ''5''], [CHR ''R'', CHR 0x27, CHR ''1'', CHR ''0''],
     [CHR ''R'', CHR 0x27, CHR ''2'', CHR ''0''], [CHR ''R'', CHR 0x27, CHR ''4'', CHR ''0''],
     [CHR ''R'', CHR 0x22, CHR ''5''], [CHR ''R'', CHR 0x22, CHR ''1'', CHR ''0''],
     [CHR ''R'', CHR 0x22, CHR ''2'', CHR ''0'']]"

subsection \<open>The rounding entry point \<^verbatim>\<open>prefnum\<close>\<close>

text \<open>
  The series argument of \<^verbatim>\<open>prefnum\<close> is a token, a numeric vector or a function
  handle.
\<close>

datatype pns = Tok string | Vec "real list" | Fun "int \<Rightarrow> real"

text \<open>
  The whole body of \<^verbatim>\<open>prefnum\<close> in the source is
  \<^verbatim>\<open>IxZ = InA>0\<close> and \<^verbatim>\<open>IsV = True\<close>: two local assignments, after which the function
  ends. A Python function that ends without \<^verbatim>\<open>return\<close> returns \<^verbatim>\<open>None\<close>, which is
  \<open>None\<close> here; \<open>Some\<close> would carry the documented outputs
  \<^verbatim>\<open>[PfA, PfS, EdS, HsA]\<close> (rounded values, series range, edges, bin counts).
  \<^verbatim>\<open>InA\<close> is a numeric vector: for a numpy array the comparison with \<^verbatim>\<open>0\<close> is element
  by element, as here; for a plain Python 2 list it is a single boolean. Either way the
  value is only stored in a local variable. The optional arguments default to
  \<^verbatim>\<open>None\<close>.
\<close>

definition prefnum ::
  "real list \<Rightarrow> pns option \<Rightarrow> real option \<Rightarrow>
    (real list \<times> real list \<times> real list \<times> nat list) option" where
  "prefnum InA PfT varargin =
    (let IxZ = map (\<lambda>a. a > 0) InA;
         IsV = True
     in None)"

section \<open>Saturated steam: \<^verbatim>\<open>thermo/steamtables.py\<close>\<close>



subsection \<open>Floating-point arithmetic\<close>

text \<open>
  A Python float is a finite binary64 number, an infinity or a NaN. The two zeros of
  binary64 are one value here: they compare equal, and none of the modelled functions
  can tell them apart other than by the sign of a zero it returns.
\<close>

datatype pyfloat = Finite real | PosInf | NegInf | NaN

text \<open>
  Rounding to the nearest integer, ties to the even one.
\<close>

definition round_half_even :: "real \<Rightarrow> int" where
  "round_half_even r =
    (let n = \<lfloor>r\<rfloor>; d = r - of_int n in
     if d < 1 / 2 then n
     else if d > 1 / 2 then n + 1
     else if even n then n else n + 1)"

text \<open>
  The binary exponent of a number other than zero, \<open>2 powi expo r \<le> \<bar>r\<bar> < 2 powi (expo r + 1)\<close>
  (lemma \<open>expo_bounds\<close> below), computed from the number of binary digits of an integer.
\<close>

definition expo :: "real \<Rightarrow> int" where
  "expo r =
    (if 1 \<le> \<bar>r\<bar> then bitlen \<lfloor>\<bar>r\<bar>\<rfloor> - 1
     else - bitlen (\<lceil>1 / \<bar>r\<bar>\<rceil> - 1))"

text \<open>
  Rounding to binary64, to nearest with ties to even: the result is a multiple of
  \<open>2 powi (e - 52)\<close>, 53 significant binary digits, where \<open>e\<close> is the exponent of the
  number and at least \<open>-1022\<close> (below \<open>2 powi - 1022\<close> the numbers are subnormal, multiples
  of \<open>2 powi - 1074\<close>). A result of magnitude \<open>2 ^ 1024\<close> or more overflows to an
  infinity.
\<close>

definition rnd :: "real \<Rightarrow> real" where
  "rnd r =
    (if r = 0 then 0
     else let q = max (expo r) (- 1022) - 52
          in of_int (round_half_even (r / 2 powi q)) * 2 powi q)"

definition fl :: "real \<Rightarrow> pyfloat" where
  "fl r =
    (let y = rnd r in
     if 2 ^ 1024 \<le> y then PosInf
     else if y \<le> - (2 ^ 1024) then NegInf
     else Finite y)"











text \<open>
  A real number that is a finite binary64 number: rounding leaves it as it is.
\<close>

definition representable :: "real \<Rightarrow> bool" where
  "representable r = (fl r = Finite r)"

subsection \<open>The functions of \<^verbatim>\<open>steamtables.py\<close>\<close>

text \<open>
  \<^verbatim>\<open>tol = 1e-3\<close>: the literal denotes the binary64 number nearest to \<open>1/1000\<close> (lemma
  \<open>tol_literal\<close> below).
\<close>

definition tol :: real where
  "tol = 1152921504606847 / 1152921504606846976"







section \<open>The series look-up\<close>

text \<open>
  A token outside the eight strings of the \<^verbatim>\<open>if\<close>/\<^verbatim>\<open>elif\<close> chain reaches the final
  \<^verbatim>\<open>else\<close>.
\<close>

lemma PrNmRLkUp_unrecognized:
  assumes "PfT \<noteq> ''R5''" "PfT \<noteq> ''R10''" "PfT \<noteq> ''R20''" "PfT \<noteq> ''R40''" "PfT \<noteq> ''R80''"
    and "PfT \<noteq> [CHR ''R'', CHR 0x22, CHR ''5'']"
    and "PfT \<noteq> [CHR ''R'', CHR 0x22, CHR ''1'', CHR ''0'']"
    and "PfT \<noteq> [CHR ''R'', CHR 0x22, CHR ''2'', CHR ''0'']"
  shows "PrNmRLkUp PfT = Inl UnrecognizedSeriesError"
  using assms by (simp add: PrNmRLkUp_def)

lemma PrNmRLkUp_error:
  "PrNmRLkUp PfT = Inl e \<Longrightarrow> e = UnrecognizedSeriesError"
  by (cases e) (simp_all add: PrNmRLkUp_def Let_def split: if_splits)

text \<open>
  The series values of a successful call are one of the eight lists that the reachable
  branches assign; the lists of the four branches written with \<^verbatim>\<open>'R''5'\<close> to
  \<^verbatim>\<open>'R''40'\<close> are never returned.
\<close>

lemma PrNmRLkUp_values:
  assumes "PrNmRLkUp PfT = Inr (vs, PfO, DfA)"
  shows "vs \<in>
    {[100, 158, 251, 398, 631],
     [100, 125, 160, 200, 250, 315, 400, 500, 630, 800],
     [100, 112, 125, 140, 160, 180, 200, 224, 250, 280,
      315, 355, 400, 450, 500, 560, 630, 710, 800, 900],
     [100, 106, 112, 118, 125, 132, 140, 150, 160, 170,
      180, 190, 200, 212, 224, 236, 250, 265, 280, 300,
      315, 335, 355, 375, 400, 425, 450, 475, 500, 530,
      560, 600, 630, 670, 710, 750, 800, 850, 900, 950],
     [100, 103, 106, 109, 112, 115, 118, 122, 125, 128,
      132, 136, 140, 145, 150, 155, 160, 165, 170, 175,
      180, 185, 190, 195, 200, 206, 212, 218, 224, 230,
      236, 243, 250, 258, 265, 272, 280, 290, 300, 307,
      315, 325, 335, 345, 355, 365, 375, 387, 400, 412,
      425, 437, 450, 462, 475, 487, 500, 515, 530, 545,
      560, 580, 600, 615, 630, 650, 670, 690, 710, 730,
      750, 775, 800, 825, 850, 875, 900, 925, 950, 975],
     [100, 150, 250, 400, 600],
     [100, 120, 150, 200, 250, 300, 400, 500, 600, 800],
     [100, 110, 120, 140, 150, 180, 200, 220, 250, 280,
      300, 350, 400, 450, 500, 550, 600, 700, 800, 900]}"
  using assms
  by (simp add: PrNmRLkUp_def array_def Let_def split: if_splits)

lemma PrNmRLkUp_R5:
  "PrNmRLkUp ''R5'' = Inr ([100, 158, 251, 398, 631], 2, [0])"
  by (simp add: PrNmRLkUp_def array_def)

lemma PrNmRLkUp_R10:
  "PrNmRLkUp ''R10'' = Inr ([100, 125, 160, 200, 250, 315, 400, 500, 630, 800], 2, [0])"
  by (simp add: PrNmRLkUp_def array_def)

text \<open>
  Claim C1. Every token of the documented set (1-2-5, E6 to E192, the Renard tokens and
  their rounded and twice rounded variants) is accepted, with its series list as the
  result, and only tokens outside the set raise.

  The code does not do this. Of the nineteen documented tokens the eleven below raise:
  the chain has no branch for 1-2-5 and the electronic series, and the four branches
  meant for the rounded Renard tokens compare with \<^verbatim>\<open>'R5'\<close>, \<^verbatim>\<open>'R10'\<close>, \<^verbatim>\<open>'R20'\<close> and
  \<^verbatim>\<open>'R40'\<close> again, so a token with an apostrophe reaches the final \<^verbatim>\<open>else\<close>.
\<close>

theorem PrNmRLkUp_documented_tokens_raising:
  "filter (\<lambda>PfT. PrNmRLkUp PfT = Inl UnrecognizedSeriesError) documented_tokens =
    [''125'',
     ''E6'', ''E12'', ''E24'', ''E48'', ''E96'', ''E192'',
     [CHR ''R'', CHR 0x27, CHR ''5''], [CHR ''R'', CHR 0x27, CHR ''1'', CHR ''0''],
     [CHR ''R'', CHR 0x27, CHR ''2'', CHR ''0''], [CHR ''R'', CHR 0x27, CHR ''4'', CHR ''0'']]"
  by (simp add: documented_tokens_def PrNmRLkUp_def array_def)

text \<open>
  Claim C2. Beside the series values the look-up returns a mode flag that tells the
  basic, rounded and twice rounded variants apart; the flag of \<^verbatim>\<open>'R5'\<close> differs from
  the flag of \<^verbatim>\<open>'R"5'\<close>.

  The second component of the result is \<^verbatim>\<open>PfO\<close>, assigned \<^verbatim>\<open>2\<close> once and never
  changed: the basic token \<^verbatim>\<open>'R5'\<close> and the twice rounded token \<^verbatim>\<open>'R"5'\<close> both
  return \<^verbatim>\<open>2\<close>.
\<close>

theorem PrNmRLkUp_PfO_R5_twice_rounded_equal:
  "PrNmRLkUp ''R5'' = Inr ([100, 158, 251, 398, 631], 2, [0]) \<and>
   PrNmRLkUp [CHR ''R'', CHR 0x22, CHR ''5''] = Inr ([100, 150, 250, 400, 600], 2, [0])"
  by (simp add: PrNmRLkUp_def array_def)

text \<open>
  Claim C2, as the code has it. For every token that the look-up accepts, the second
  component of the result is \<open>2\<close>, whatever the variant of the token.
\<close>

theorem PrNmRLkUp_PfO:
  "PrNmRLkUp PfT = Inr (vs, PfO, DfA) \<Longrightarrow> PfO = 2"
  by (auto simp add: PrNmRLkUp_def Let_def split: if_splits)

theorem PrNmRLkUp_PfO_witness:
  "PrNmRLkUp ''R10'' = Inr ([100, 125, 160, 200, 250, 315, 400, 500, 630, 800], 2, [0]) \<and>
   (2 :: int) = 2"
  using PrNmRLkUp_R10 PrNmRLkUp_PfO [OF PrNmRLkUp_R10] by simp

text \<open>
  Claim C3. A token that is none of the known series names, \<^verbatim>\<open>'E7'\<close> for one, raises
  the unrecognized-series error, and a call with a string raises for no other reason.

  Stated for every string outside the documented tokens; the exception of the final
  \<^verbatim>\<open>else\<close> is the only one the function raises.
\<close>

theorem PrNmRLkUp_unknown_token:
  "PrNmRLkUp ''E7'' = Inl UnrecognizedSeriesError \<and>
   (\<forall>PfT. PfT \<notin> set documented_tokens \<longrightarrow> PrNmRLkUp PfT = Inl UnrecognizedSeriesError) \<and>
   (\<forall>PfT e. PrNmRLkUp PfT = Inl e \<longrightarrow> e = UnrecognizedSeriesError)"
proof (intro conjI allI impI)
  show "PrNmRLkUp ''E7'' = Inl UnrecognizedSeriesError"
    by (rule PrNmRLkUp_unrecognized) simp_all
next
  fix PfT
  assume "PfT \<notin> set documented_tokens"
  then show "PrNmRLkUp PfT = Inl UnrecognizedSeriesError"
    by (intro PrNmRLkUp_unrecognized) (auto simp: documented_tokens_def)
next
  fix PfT e
  assume "PrNmRLkUp PfT = Inl e"
  then show "e = UnrecognizedSeriesError"
    by (rule PrNmRLkUp_error)
qed

theorem PrNmRLkUp_unknown_token_witness:
  "''R7'' \<notin> set documented_tokens \<and> PrNmRLkUp ''R7'' = Inl UnrecognizedSeriesError"
proof -
  have a: "''R7'' \<notin> set documented_tokens"
    by (simp add: documented_tokens_def)
  from PrNmRLkUp_unknown_token a have "PrNmRLkUp ''R7'' = Inl UnrecognizedSeriesError"
    by blast
  with a show ?thesis by simp
qed

text \<open>
  Claim C4. For every token that the look-up accepts, the returned series values are
  strictly increasing and positive, and the ratio of the largest to the smallest is
  below ten.
\<close>

theorem PrNmRLkUp_one_decade:
  assumes "PrNmRLkUp PfT = Inr (vs, PfO, DfA)"
  shows "sorted_wrt (<) vs \<and> (\<forall>x \<in> set vs. 0 < x) \<and> vs \<noteq> [] \<and>
    real_of_int (Max (set vs)) / real_of_int (Min (set vs)) < 10"
  using PrNmRLkUp_values [OF assms]
  by (elim insertE emptyE) simp_all

theorem PrNmRLkUp_one_decade_witness:
  "PrNmRLkUp ''R5'' = Inr ([100, 158, 251, 398, 631], 2, [0]) \<and>
   sorted_wrt (<) [100, 158, 251, 398, 631 :: int] \<and>
   0 < Min (set [100, 158, 251, 398, 631 :: int]) \<and>
   real_of_int (Max (set [100, 158, 251, 398, 631])) /
     real_of_int (Min (set [100, 158, 251, 398, 631])) < 10"
  using PrNmRLkUp_R5 PrNmRLkUp_one_decade [OF PrNmRLkUp_R5] by simp

text \<open>
  Claim C5. The look-up returns the documented default tolerance of the token: 0.2 for
  E6, 0.1 for E12, 0.05 for E24, 0.02 for E48, 0.01 for E96, 0.005 for E192, 0.36 for
  1-2-5, and zero for the Renard tokens.

  The seven tokens with a tolerance other than zero return nothing: each of them
  raises.
\<close>

theorem PrNmRLkUp_no_tolerance_for_E_and_125:
  "PrNmRLkUp ''E6'' = Inl UnrecognizedSeriesError \<and>
   PrNmRLkUp ''E12'' = Inl UnrecognizedSeriesError \<and>
   PrNmRLkUp ''E24'' = Inl UnrecognizedSeriesError \<and>
   PrNmRLkUp ''E48'' = Inl UnrecognizedSeriesError \<and>
   PrNmRLkUp ''E96'' = Inl UnrecognizedSeriesError \<and>
   PrNmRLkUp ''E192'' = Inl UnrecognizedSeriesError \<and>
   PrNmRLkUp ''125'' = Inl UnrecognizedSeriesError"
  by (simp add: PrNmRLkUp_def)

section \<open>The rounding entry point\<close>

text \<open>
  Claim C6. Whatever the input vector, the series and the tolerance, every zero of the
  input is a zero of the rounded output.

  There is no rounded output: for every input vector, series and tolerance the
  function returns \<^verbatim>\<open>None\<close>.
\<close>

theorem prefnum_returns_None:
  "prefnum InA PfT varargin = None"
  by (simp add: prefnum_def)

text \<open>
  Claim C7. The edge between two adjacent series values \<open>v1 < v2\<close> is
  \<open>((1 + tol) * v1 + (1 - tol) * v2) / 2\<close>, the arithmetic mean when the tolerance is
  zero.

  The header's example is the series \<^verbatim>\<open>[20, 30, 60]\<close> with tolerance zero, where the
  edge between 20 and 30 is 25. The call computes no edges: with the inputs 24 and 26 on
  either side of that edge it returns \<^verbatim>\<open>None\<close>.
\<close>

theorem prefnum_no_edges:
  "prefnum [24, 26] (Some (Vec [20, 30, 60])) (Some 0) = None"
  by (simp add: prefnum_def)

text \<open>
  Claim C8. Rounding \<^verbatim>\<open>[514, 7.6, 37, 0.9]\<close> to the series \<^verbatim>\<open>'R10'\<close> gives
  \<^verbatim>\<open>[500, 8.0, 40, 1]\<close>.

  The call returns \<^verbatim>\<open>None\<close>.
\<close>

theorem prefnum_R10_example:
  "prefnum [514, 76 / 10, 37, 9 / 10] (Some (Tok ''R10'')) None = None"
  by (simp add: prefnum_def)

section \<open>Floating-point rounding\<close>

text \<open>
  Powers of two with an integer exponent that is not negative.
\<close>

lemma powi_nat: "0 \<le> k \<Longrightarrow> (2::real) powi k = 2 ^ nat k"
  by (simp add: power_int_def)

text \<open>
  The exponent that \<open>expo\<close> computes brackets the number between two powers of
  two, first for a magnitude of at least one, then for a magnitude below one.
\<close>

lemma expo_ge1:
  assumes "1 \<le> \<bar>r\<bar>"
  shows "2 powi expo r \<le> \<bar>r\<bar> \<and> \<bar>r\<bar> < 2 powi (expo r + 1)"
proof -
  let ?n = "\<lfloor>\<bar>r\<bar>\<rfloor>"
  let ?b = "bitlen ?n"
  have n: "?n > 0" using assms by linarith
  have e: "expo r = ?b - 1" using assms by (simp add: expo_def)
  have b1: "?b \<ge> 1" using n by (auto simp: bitlen_alt_def)
  from bitlen_bounds [OF n] have lo: "2 ^ nat (?b - 1) \<le> ?n" and hi: "?n < 2 ^ nat ?b"
    by auto
  have "(2::real) ^ nat (?b - 1) \<le> real_of_int ?n"
    using lo by (metis of_int_le_iff of_int_numeral of_int_power)
  also have "\<dots> \<le> \<bar>r\<bar>" by linarith
  finally have A: "2 powi expo r \<le> \<bar>r\<bar>"
    using b1 by (simp add: e powi_nat)
  have "?n + 1 \<le> 2 ^ nat ?b" using hi by linarith
  then have "real_of_int (?n + 1) \<le> 2 ^ nat ?b"
    by (metis of_int_le_iff of_int_numeral of_int_power)
  moreover have "\<bar>r\<bar> < real_of_int (?n + 1)" by linarith
  ultimately have "\<bar>r\<bar> < 2 ^ nat ?b" by linarith
  then have B: "\<bar>r\<bar> < 2 powi (expo r + 1)"
    using b1 by (simp add: e powi_nat)
  from A B show ?thesis ..
qed

lemma expo_lt1:
  assumes "r \<noteq> 0" "\<bar>r\<bar> < 1"
  shows "2 powi expo r \<le> \<bar>r\<bar> \<and> \<bar>r\<bar> < 2 powi (expo r + 1)"
proof -
  let ?y = "1 / \<bar>r\<bar>"
  let ?m = "\<lceil>?y\<rceil> - 1"
  let ?b = "bitlen ?m"
  have r0: "0 < \<bar>r\<bar>" using assms by simp
  have y1: "1 < ?y" using assms r0 by (simp add: field_simps)
  have m: "?m > 0" using y1 by linarith
  have e: "expo r = - ?b" using assms by (simp add: expo_def)
  have b1: "?b \<ge> 1" using m by (auto simp: bitlen_alt_def)
  from bitlen_bounds [OF m] have lo: "2 ^ nat (?b - 1) \<le> ?m" and hi: "?m < 2 ^ nat ?b"
    by auto
  have ylo: "real_of_int ?m < ?y" by linarith
  have yhi: "?y \<le> real_of_int (?m + 1)" by linarith
  have "?m + 1 \<le> 2 ^ nat ?b" using hi by linarith
  then have "real_of_int (?m + 1) \<le> 2 ^ nat ?b"
    by (metis of_int_le_iff of_int_numeral of_int_power)
  with yhi have "?y \<le> 2 ^ nat ?b" by linarith
  then have "1 \<le> 2 ^ nat ?b * \<bar>r\<bar>"
    using r0 by (simp add: field_simps)
  then have "1 / 2 ^ nat ?b \<le> \<bar>r\<bar>"
    by (simp add: field_simps)
  then have A: "2 powi expo r \<le> \<bar>r\<bar>"
    using b1 by (simp add: e power_int_minus_divide powi_nat)
  have "(2::real) ^ nat (?b - 1) \<le> real_of_int ?m"
    using lo by (metis of_int_le_iff of_int_numeral of_int_power)
  with ylo have "2 ^ nat (?b - 1) < ?y" by linarith
  then have "2 ^ nat (?b - 1) * \<bar>r\<bar> < 1"
    using r0 by (simp add: field_simps)
  then have "\<bar>r\<bar> < 1 / 2 ^ nat (?b - 1)"
    by (simp add: field_simps)
  moreover have "expo r + 1 = - (?b - 1)" by (simp add: e)
  ultimately have B: "\<bar>r\<bar> < 2 powi (expo r + 1)"
    using b1 by (simp only: power_int_minus_divide powi_nat) 
  from A B show ?thesis ..
qed

lemma expo_bounds:
  "r \<noteq> 0 \<Longrightarrow> 2 powi expo r \<le> \<bar>r\<bar> \<and> \<bar>r\<bar> < 2 powi (expo r + 1)"
  using expo_ge1 [of r] expo_lt1 [of r] by (cases "1 \<le> \<bar>r\<bar>") auto

text \<open>
  The exponent is the only one that brackets the number, so it can be read off two
  inequalities; \<open>rnd_normal\<close> is the rounding of a number whose exponent is known
  and in the normal range.
\<close>

lemma nonzero_if_pow2_le:
  assumes "2 powi e \<le> \<bar>r :: real\<bar>"
  shows "r \<noteq> 0"
proof
  have p: "0 < (2::real) powi e"
    by (rule zero_less_power_int) simp
  assume "r = 0"
  with assms have "(2::real) powi e \<le> 0" by simp
  with p show False by linarith
qed

lemma expo_eqI:
  assumes "2 powi e \<le> \<bar>r\<bar>" and "\<bar>r\<bar> < 2 powi (e + 1)"
  shows "expo r = e"
proof -
  have r: "r \<noteq> 0"
    using assms(1) by (rule nonzero_if_pow2_le)
  note b = expo_bounds [OF r]
  have "(2::real) powi e < 2 powi (expo r + 1)" using assms(1) b by linarith
  then have 1: "e < expo r + 1"
    by (metis linorder_not_less one_le_numeral power_int_increasing)
  have "(2::real) powi expo r < 2 powi (e + 1)" using assms(2) b by linarith
  then have 2: "expo r < e + 1"
    by (metis linorder_not_less one_le_numeral power_int_increasing)
  from 1 2 show ?thesis by linarith
qed

lemma rnd_normal:
  assumes "2 powi e \<le> \<bar>r\<bar>" and "\<bar>r\<bar> < 2 powi (e + 1)" and "- 1022 \<le> e"
  shows "rnd r = of_int (round_half_even (r / 2 powi (e - 52))) * 2 powi (e - 52)"
proof -
  have "r \<noteq> 0"
    using assms(1) by (rule nonzero_if_pow2_le)
  moreover have "expo r = e" using assms(1,2) by (rule expo_eqI)
  ultimately show ?thesis using assms(3) by (simp add: rnd_def max_def Let_def)
qed

text \<open>
  The finite binary64 numbers are the numbers \<open>m * 2 powi q\<close> with \<open>\<bar>m\<bar> < 2 ^ 53\<close> and
  \<open>- 1074 \<le> q \<le> 971\<close>; rounding leaves each of them as it is.
\<close>

lemma round_half_even_of_int: "round_half_even (of_int k) = k"
  by (simp add: round_half_even_def)

lemma representable_dyadic:
  assumes m: "\<bar>m\<bar> < 2 ^ 53" and q: "- 1074 \<le> q" "q \<le> 971"
  shows "representable (of_int m * 2 powi q)"
proof (cases "m = 0")
  case True
  then show ?thesis
    by (simp add: representable_def fl_def rnd_def)
next
  case False
  let ?r = "of_int m * 2 powi q :: real"
  have pq: "0 < (2::real) powi q"
    by (rule zero_less_power_int) simp
  have r0: "?r \<noteq> 0" using False pq by simp
  have absr: "\<bar>?r\<bar> = of_int \<bar>m\<bar> * 2 powi q"
    using pq by (simp add: abs_mult)
  have "real_of_int \<bar>m\<bar> < 2 ^ 53"
    using m by (metis of_int_less_iff of_int_numeral of_int_power)
  then have up: "\<bar>?r\<bar> < 2 ^ 53 * 2 powi q"
    using pq by (simp add: absr)
  have e53: "(2::real) ^ 53 * 2 powi q = 2 powi (53 + q)"
    by (simp add: power_int_add)
  from expo_bounds [OF r0] have "2 powi expo ?r \<le> \<bar>?r\<bar>" by simp
  with up e53 have "(2::real) powi expo ?r < 2 powi (53 + q)" by linarith
  then have e: "expo ?r < 53 + q"
    by (metis linorder_not_less one_le_numeral power_int_increasing)
  define p where "p = max (expo ?r) (- 1022) - 52"
  have pq': "p \<le> q" using e q by (simp add: p_def)
  have split: "(2::real) powi q = 2 powi (q - p) * 2 powi p"
    by (simp add: power_int_add [symmetric])
  have nat: "(2::real) powi (q - p) = of_int (2 ^ nat (q - p))"
    using pq' by (simp add: powi_nat)
  have "?r / 2 powi p = of_int m * 2 powi (q - p)"
    by (simp add: split)
  also have "\<dots> = of_int (m * 2 ^ nat (q - p))"
    by (simp add: nat)
  finally have "round_half_even (?r / 2 powi p) = m * 2 ^ nat (q - p)"
    by (simp only: round_half_even_of_int)
  then have "rnd ?r = of_int (m * 2 ^ nat (q - p)) * 2 powi p"
    using r0 by (simp add: rnd_def Let_def p_def)
  also have "\<dots> = ?r"
    using nat split by simp
  finally have rnd: "rnd ?r = ?r" .
  have "(2::real) powi (53 + q) \<le> 2 powi 1024"
    using q by (intro power_int_increasing) simp_all
  with up e53 have "\<bar>?r\<bar> < 2 ^ 1024" by simp
  then have "\<not> 2 ^ 1024 \<le> ?r" "\<not> ?r \<le> - (2 ^ 1024)" by linarith+
  then show ?thesis
    by (simp add: representable_def fl_def rnd Let_def)
qed

lemma tol_literal: "fl (1 / 1000) = Finite tol"
  by (simp add: tol_def fl_def rnd_normal [of "- 10"] round_half_even_def)




section \<open>Saturated steam\<close>







end
